theory Spec2Isabelle
  imports Main "HOL-Library.Word"
begin

unbundle bit_operations_syntax

section \<open>The HTTP/2 upstream of shrpx (shrpx\_http2\_upstream.cc)\<close>

text \<open>
  The development embeds the callbacks of \<^verbatim>\<open>Http2Upstream\<close> that drive the per-stream
  state machine. The HTTP/2 codec (nghttp2), libevent, \<^verbatim>\<open>Downstream\<close>,
  \<^verbatim>\<open>DownstreamConnection\<close>, \<^verbatim>\<open>ClientHandler\<close> and the helpers of \<^verbatim>\<open>http2::\<close> and
  \<^verbatim>\<open>util::\<close> are collaborators whose code is not part of the sources. A call to one of
  them is recorded in the order of execution in the field \<open>calls\<close> of the state, and what
  it answers (a return code, a parsed value) is an input of the model, collected in the
  record \<open>env\<close>. Log output (\<^verbatim>\<open>ULOG\<close>, \<^verbatim>\<open>DCLOG\<close>, the frame dumps and the access log) is not
  modelled.
\<close>

subsection \<open>Constants of the codec\<close>

type_synonym nghttp2_error_code = "32 word"

text \<open>Modelled from the spec: nghttp2.h is not part of the sources. The error codes the
  spec names, with their values on the HTTP/2 wire.\<close>

definition NGHTTP2_PROTOCOL_ERROR :: nghttp2_error_code where
  "NGHTTP2_PROTOCOL_ERROR = 1"

definition NGHTTP2_INTERNAL_ERROR :: nghttp2_error_code where
  "NGHTTP2_INTERNAL_ERROR = 2"

definition NGHTTP2_SETTINGS_TIMEOUT :: nghttp2_error_code where
  "NGHTTP2_SETTINGS_TIMEOUT = 4"

definition NGHTTP2_REFUSED_STREAM :: nghttp2_error_code where
  "NGHTTP2_REFUSED_STREAM = 7"

text \<open>Modelled from the spec: nghttp2.h is not part of the sources. The library error
  codes the callbacks return or compare with, the frame types and the frame flags, with
  their values in nghttp2 and on the HTTP/2 wire.\<close>

definition NGHTTP2_ERR_DEFERRED :: int where
  "NGHTTP2_ERR_DEFERRED = - 508"

definition NGHTTP2_ERR_TEMPORAL_CALLBACK_FAILURE :: int where
  "NGHTTP2_ERR_TEMPORAL_CALLBACK_FAILURE = - 521"

definition NGHTTP2_ERR_FATAL :: int where
  "NGHTTP2_ERR_FATAL = - 900"

definition NGHTTP2_ERR_CALLBACK_FAILURE :: int where
  "NGHTTP2_ERR_CALLBACK_FAILURE = - 902"

definition NGHTTP2_DATA :: "8 word" where
  "NGHTTP2_DATA = 0"

definition NGHTTP2_HEADERS :: "8 word" where
  "NGHTTP2_HEADERS = 1"

definition NGHTTP2_PRIORITY :: "8 word" where
  "NGHTTP2_PRIORITY = 2"

definition NGHTTP2_SETTINGS :: "8 word" where
  "NGHTTP2_SETTINGS = 4"

definition NGHTTP2_PUSH_PROMISE :: "8 word" where
  "NGHTTP2_PUSH_PROMISE = 5"

definition NGHTTP2_FLAG_END_STREAM :: "8 word" where
  "NGHTTP2_FLAG_END_STREAM = 1"

definition NGHTTP2_FLAG_ACK :: "8 word" where
  "NGHTTP2_FLAG_ACK = 1"

datatype nghttp2_headers_category =
  NGHTTP2_HCAT_REQUEST | NGHTTP2_HCAT_RESPONSE | NGHTTP2_HCAT_PUSH_RESPONSE
  | NGHTTP2_HCAT_HEADERS

text \<open>The members of the union \<^verbatim>\<open>nghttp2_frame\<close> that the callbacks read.\<close>

record nghttp2_frame =
  hd_type :: "8 word"
  hd_flags :: "8 word"
  hd_stream_id :: int
  headers_cat :: nghttp2_headers_category
  headers_pri :: int
  priority_pri :: int
  push_promise_promised_stream_id :: int

definition OUTBUF_MAX_THRES :: nat where
  "OUTBUF_MAX_THRES = 64 * 1024"

subsection \<open>Streams\<close>

type_synonym Headers = "(string \<times> string) list"

type_synonym addr = nat

type_synonym dconn = nat

text \<open>Modelled from the spec: shrpx\_downstream.h is not part of the sources. The states
  of the enum of \<^verbatim>\<open>Downstream\<close>, which the source uses for both the request side and the
  response side, and the attributes of a Stream that the callbacks read or write. A byte
  queue (an evbuffer) is the list of its bytes; the response body buffer is \<open>None\<close>
  until it is initialised.\<close>

datatype dstate =
  INITIAL | HEADER_COMPLETE | MSG_COMPLETE | STREAM_CLOSED | CONNECT_FAIL | MSG_RESET

record Downstream =
  stream_id :: int
  priority :: int
  request_state :: dstate
  response_state :: dstate
  request_headers :: Headers
  request_headers_sum :: nat
  request_method :: string
  request_http2_scheme :: string
  request_http2_authority :: string
  request_path :: string
  upgrade_request :: bool
  upgraded :: bool
  response_connection_close :: bool
  response_body_buf :: "string option"
  downstream_connection :: "dconn option"
  response_rst_stream_error_code :: nghttp2_error_code

text \<open>Modelled from the spec: the constructor \<^verbatim>\<open>Downstream(upstream, stream_id, priority)\<close>
  is not part of the sources. A new Stream is in state INITIAL on both sides, with no
  header, a running header size of 0, no response body buffer and no origin connection.\<close>

definition new_Downstream :: "int \<Rightarrow> int \<Rightarrow> Downstream" where
  "new_Downstream sid pri =
     \<lparr>stream_id = sid, priority = pri, request_state = INITIAL, response_state = INITIAL,
      request_headers = [], request_headers_sum = 0, request_method = [],
      request_http2_scheme = [], request_http2_authority = [], request_path = [],
      upgrade_request = False, upgraded = False, response_connection_close = False,
      response_body_buf = None, downstream_connection = None,
      response_rst_stream_error_code = 0\<rparr>"

subsection \<open>The session state\<close>

text \<open>A libevent timer: \<open>ev_timeout\<close> is the timeval it was added with, \<open>None\<close> while it
  is not pending.\<close>

record event =
  ev_timeout :: "(nat \<times> nat) option"

text \<open>The calls to collaborators. \<open>Delete_Downstream\<close> carries the object as it is when
  its destructor runs. \<open>Http2Upstream_send\<close> marks an entry into \<^verbatim>\<open>Http2Upstream::send\<close>.\<close>

datatype call =
    Submit_rst_stream int nghttp2_error_code
  | Submit_response int Headers
  | Attach_downstream dconn addr
  | Detach_downstream dconn addr
  | Push_request_headers addr
  | End_upload_data addr
  | Change_priority addr int
  | Downstream_on_read addr
  | Downstream_resume_read addr
  | Delete_Downstream addr Downstream
  | Delete_dconn dconn
  | Delete_client_handler
  | Http2Upstream_send

text \<open>\<open>heap\<close> holds the live \<^verbatim>\<open>Downstream\<close> objects, \<open>brk\<close> is the address the next
  \<^verbatim>\<open>new\<close> returns, \<open>downstream_queue\<close> is the stream table (stream-id to pointer),
  \<open>outbuf_length\<close> is \<^verbatim>\<open>handler_->get_outbuf_length()\<close>.\<close>

record state =
  heap :: "addr \<rightharpoonup> Downstream"
  brk :: addr
  downstream_queue :: "int \<rightharpoonup> addr"
  settings_timerev :: "event option"
  outbuf_length :: nat
  calls :: "call list"

text \<open>\<open>Die\<close> is the macro \<^verbatim>\<open>DIE()\<close>, \<open>Assert_failed\<close> a failed \<^verbatim>\<open>assert\<close>,
  \<open>Invalid_pointer\<close> the use of a pointer that is null or whose object is not live.\<close>

datatype abort = Die | Assert_failed | Invalid_pointer

text \<open>The configuration, the helpers of \<^verbatim>\<open>http2::\<close>, \<^verbatim>\<open>http::\<close> and \<^verbatim>\<open>Downstream\<close>
  whose code is not part of the sources, and the answers of the codec, of libevent and of
  the origin connection during one callback. \<open>mem_send\<close> lists what
  \<^verbatim>\<open>nghttp2_session_mem_send\<close> returns call after call, each with whether the
  \<^verbatim>\<open>evbuffer_add\<close> to the output buffer that follows fails; after the list the codec has
  nothing to send.\<close>

record env =
  http2_proxy :: bool
  server_name :: string
  MAX_HEADERS_SUM :: nat
  check_nv :: "string \<Rightarrow> string \<Rightarrow> bool"
  split_add_header :: "string \<Rightarrow> string \<Rightarrow> Headers"
  normalize_headers :: "Headers \<Rightarrow> Headers"
  check_http2_headers :: "Headers \<Rightarrow> bool"
  get_unique_header :: "Headers \<Rightarrow> string \<Rightarrow> (string \<times> string) option"
  get_header :: "Headers \<Rightarrow> string \<Rightarrow> (string \<times> string) option"
  value_lws :: "string \<times> string \<Rightarrow> bool"
  check_upgrade_request :: "Downstream \<Rightarrow> bool"
  init_existing_body_buf :: "string \<Rightarrow> string"
  create_error_html :: "nat \<Rightarrow> string"
  utos :: "nat \<Rightarrow> string"
  get_downstream_connection :: dconn
  attach_downstream_rv :: int
  push_request_headers_rv :: int
  change_priority_rv :: int
  submit_rst_stream_rv :: int
  submit_response_rv :: int
  evtimer_new_fails :: bool
  evtimer_add_fails :: bool
  evbuffer_add_fails :: bool
  evbuffer_remove_fails :: bool
  resume_read_rv :: int
  on_read :: "Downstream \<Rightarrow> int \<times> Downstream"
  mem_send :: "(int \<times> bool) list"
  want_read :: int
  want_write :: int

text \<open>Modelled from the spec: \<^verbatim>\<open>Downstream::init_response_body_buf\<close> is not part of the
  sources. It initialises the response body buffer of the Stream: a Stream that has no
  buffer holds an empty byte queue afterwards. Neither the sources nor the spec say what
  it leaves of a buffer that exists already (nothing, if the buffer is reset; all of it,
  if a buffer is only created when there is none): this is the input
  \<open>init_existing_body_buf\<close> of the model.\<close>

definition init_response_body_buf :: "env \<Rightarrow> Downstream \<Rightarrow> Downstream" where
  "init_response_body_buf x ds =
     (case response_body_buf ds of
        None \<Rightarrow> ds\<lparr>response_body_buf := Some []\<rparr>
      | Some body \<Rightarrow> ds\<lparr>response_body_buf := Some (init_existing_body_buf x body)\<rparr>)"

definition log :: "state \<Rightarrow> call \<Rightarrow> state" where
  "log s c = s\<lparr>calls := calls s @ [c]\<rparr>"

definition store :: "state \<Rightarrow> addr \<Rightarrow> Downstream \<Rightarrow> state" where
  "store s p ds = s\<lparr>heap := (heap s)(p \<mapsto> ds)\<rparr>"

text \<open>Modelled from the spec: the class \<^verbatim>\<open>DownstreamQueue\<close> is not part of the sources. The
  stream table maps a stream-id to its Stream, with insertion, removal and lookup by
  id.\<close>

definition add_downstream :: "state \<Rightarrow> addr \<Rightarrow> Downstream \<Rightarrow> state" where
  "add_downstream s p ds = s\<lparr>downstream_queue := (downstream_queue s)(stream_id ds \<mapsto> p)\<rparr>"

definition remove_downstream :: "state \<Rightarrow> Downstream \<Rightarrow> state" where
  "remove_downstream s ds = s\<lparr>downstream_queue := (downstream_queue s)(stream_id ds := None)\<rparr>"

definition find_downstream :: "state \<Rightarrow> int \<Rightarrow> addr option" where
  "find_downstream s sid = downstream_queue s sid"

text \<open>\<^verbatim>\<open>delete downstream\<close>: the destructor runs and the object leaves the heap.\<close>

definition delete_downstream :: "state \<Rightarrow> addr \<Rightarrow> Downstream \<Rightarrow> state" where
  "delete_downstream s p ds = (log s (Delete_Downstream p ds))\<lparr>heap := (heap s)(p := None)\<rparr>"

text \<open>Modelled from the spec: \<^verbatim>\<open>DownstreamConnection::detach_downstream\<close> is not part of
  the sources. The origin connection is detached from the Stream, which no longer holds
  it.\<close>

definition detach_downstream :: "state \<Rightarrow> dconn \<Rightarrow> addr \<Rightarrow> Downstream \<Rightarrow> state \<times> Downstream" where
  "detach_downstream s dc p ds =
     (log s (Detach_downstream dc p), ds\<lparr>downstream_connection := None\<rparr>)"

subsection \<open>Stream close\<close>

definition on_stream_close_callback :: "state \<Rightarrow> int \<Rightarrow> abort + (int \<times> state)" where
  "on_stream_close_callback s sid =
     (case find_downstream s sid of
        None \<Rightarrow> Inr (0, s)
      | Some downstream \<Rightarrow>
          (case heap s downstream of
             None \<Rightarrow> Inl Invalid_pointer
           | Some ds \<Rightarrow>
               if request_state ds = CONNECT_FAIL then
                 Inr (0, delete_downstream (remove_downstream s ds) downstream ds)
               else
                 let ds1 = ds\<lparr>request_state := STREAM_CLOSED\<rparr> in
                 if response_state ds1 = MSG_COMPLETE then
                   let (s2, ds2) =
                     (if \<not> upgraded ds1 \<and> \<not> response_connection_close ds1 then
                        (case downstream_connection ds1 of
                           None \<Rightarrow> (s, ds1)
                         | Some dc \<Rightarrow> detach_downstream s dc downstream ds1)
                      else (s, ds1))
                   in Inr (0, delete_downstream (remove_downstream s2 ds2) downstream ds2)
                 else
                   Inr (0, delete_downstream (remove_downstream s ds1) downstream ds1)))"

subsection \<open>The SETTINGS-ACK timer\<close>

definition start_settings_timer :: "env \<Rightarrow> state \<Rightarrow> int \<times> state" where
  "start_settings_timer x s =
     (if settings_timerev s \<noteq> None then (0, s)
      else if evtimer_new_fails x then (- 1, s\<lparr>settings_timerev := None\<rparr>)
      else
        let s1 = s\<lparr>settings_timerev := Some \<lparr>ev_timeout = None\<rparr>\<rparr>;
            settings_timeout = (10, 0)
        in if evtimer_add_fails x then (- 1, s1)
           else (0, s1\<lparr>settings_timerev := Some \<lparr>ev_timeout = Some settings_timeout\<rparr>\<rparr>))"

definition stop_settings_timer :: "state \<Rightarrow> state" where
  "stop_settings_timer s =
     (if settings_timerev s = None then s else s\<lparr>settings_timerev := None\<rparr>)"

definition on_frame_send_callback :: "env \<Rightarrow> state \<Rightarrow> nghttp2_frame \<Rightarrow> int \<times> state" where
  "on_frame_send_callback x s frame =
     (if hd_type frame = NGHTTP2_SETTINGS \<and> hd_flags frame AND NGHTTP2_FLAG_ACK = 0 then
        (case start_settings_timer x s of
           (rv, s1) \<Rightarrow> if rv \<noteq> 0 then (NGHTTP2_ERR_CALLBACK_FAILURE, s1) else (0, s1))
      else (0, s))"

subsection \<open>Translating an origin error code\<close>


definition infer_upstream_rst_stream_error_code ::
  "nghttp2_error_code \<Rightarrow> nghttp2_error_code" where
  "infer_upstream_rst_stream_error_code downstream_error_code =
     (if downstream_error_code \<noteq> NGHTTP2_REFUSED_STREAM then NGHTTP2_INTERNAL_ERROR
      else downstream_error_code)"

subsection \<open>Resetting a stream\<close>

definition rst_stream ::
  "env \<Rightarrow> state \<Rightarrow> Downstream \<Rightarrow> nghttp2_error_code \<Rightarrow> abort + (int \<times> state)" where
  "rst_stream x s ds error_code =
     (let s1 = log s (Submit_rst_stream (stream_id ds) error_code);
          rv = submit_rst_stream_rv x
      in if rv < NGHTTP2_ERR_FATAL then Inl Die else Inr (0, s1))"

text \<open>The statement pair \<^verbatim>\<open>upstream->rst_stream(downstream, code); return 0;\<close>.\<close>

definition rst_stream_return ::
  "env \<Rightarrow> state \<Rightarrow> Downstream \<Rightarrow> nghttp2_error_code \<Rightarrow> abort + (int \<times> state)" where
  "rst_stream_return x s ds error_code =
     (case rst_stream x s ds error_code of
        Inl e \<Rightarrow> Inl e
      | Inr (rv, s1) \<Rightarrow> Inr (0, s1))"

subsection \<open>Request headers\<close>

text \<open>Modelled from the spec: \<^verbatim>\<open>Downstream::split_add_request_header\<close> is not part of the
  sources. The running raw-header size grows by the lengths of the name and of the value,
  and the header, split on NUL by \<^verbatim>\<open>http2::split_add_header\<close>, is appended to the request
  header list.\<close>

definition split_add_request_header ::
  "env \<Rightarrow> Downstream \<Rightarrow> string \<Rightarrow> string \<Rightarrow> Downstream" where
  "split_add_request_header x ds name val =
     ds\<lparr>request_headers_sum := request_headers_sum ds + length name + length val,
        request_headers := request_headers ds @ split_add_header x name val\<rparr>"

definition on_header_callback ::
  "env \<Rightarrow> state \<Rightarrow> nghttp2_frame \<Rightarrow> string \<Rightarrow> string \<Rightarrow> abort + (int \<times> state)" where
  "on_header_callback x s frame name val =
     (if hd_type frame \<noteq> NGHTTP2_HEADERS \<or> headers_cat frame \<noteq> NGHTTP2_HCAT_REQUEST then
        Inr (0, s)
      else
        (case find_downstream s (hd_stream_id frame) of
           None \<Rightarrow> Inr (0, s)
         | Some downstream \<Rightarrow>
             (case heap s downstream of
                None \<Rightarrow> Inl Invalid_pointer
              | Some ds \<Rightarrow>
                  if request_headers_sum ds > MAX_HEADERS_SUM x then
                    Inr (NGHTTP2_ERR_TEMPORAL_CALLBACK_FAILURE, s)
                  else if \<not> check_nv x name val then Inr (0, s)
                  else Inr (0, store s downstream (split_add_request_header x ds name val)))))"

definition on_begin_headers_callback ::
  "env \<Rightarrow> state \<Rightarrow> nghttp2_frame \<Rightarrow> int \<times> state" where
  "on_begin_headers_callback x s frame =
     (if headers_cat frame \<noteq> NGHTTP2_HCAT_REQUEST then (0, s)
      else
        let downstream = brk s;
            ds = new_Downstream (hd_stream_id frame) (headers_pri frame);
            s1 = (store s downstream ds)\<lparr>brk := Suc (brk s)\<rparr>;
            s2 = add_downstream s1 downstream ds
        in (0, store s2 downstream (init_response_body_buf x ds)))"

text \<open>Modelled from the spec: \<^verbatim>\<open>http2::non_empty_value\<close> and \<^verbatim>\<open>http2::value_to_str\<close> are
  not part of the sources. A header is non-empty when it is present with a non-empty
  value; the cached pseudo-field is the value of the header, empty when it is absent.\<close>

definition non_empty_value :: "(string \<times> string) option \<Rightarrow> bool" where
  "non_empty_value nv = (case nv of None \<Rightarrow> False | Some kv \<Rightarrow> snd kv \<noteq> [])"

definition value_to_str :: "(string \<times> string) option \<Rightarrow> string" where
  "value_to_str nv = (case nv of None \<Rightarrow> [] | Some kv \<Rightarrow> snd kv)"

text \<open>Modelled from the spec: \<^verbatim>\<open>Downstream::normalize_request_headers\<close>,
  \<^verbatim>\<open>Downstream::check_upgrade_request\<close>, \<^verbatim>\<open>DownstreamConnection::attach_downstream\<close> and
  \<^verbatim>\<open>Downstream::push_request_headers\<close> are not part of the sources. The first replaces the
  request header list by its normal form, the second records whether the request asks
  for an upgrade, a successful attach makes the Stream hold the origin connection, and
  the push writes to the origin only.\<close>

definition on_request_headers ::
  "env \<Rightarrow> state \<Rightarrow> nghttp2_frame \<Rightarrow> abort + (int \<times> state)" where
  "on_request_headers x s frame =
     (case find_downstream s (hd_stream_id frame) of
        None \<Rightarrow> Inr (0, s)
      | Some downstream \<Rightarrow>
          (case heap s downstream of
             None \<Rightarrow> Inl Invalid_pointer
           | Some ds0 \<Rightarrow>
               let ds = ds0\<lparr>request_headers := normalize_headers x (request_headers ds0)\<rparr>;
                   s0 = store s downstream ds;
                   nva = request_headers ds
               in
               if \<not> check_http2_headers x nva then
                 rst_stream_return x s0 ds NGHTTP2_PROTOCOL_ERROR
               else
               let host = get_unique_header x nva ''host'';
                   authority = get_unique_header x nva '':authority'';
                   path = get_unique_header x nva '':path'';
                   method = get_unique_header x nva '':method'';
                   scheme = get_unique_header x nva '':scheme'';
                   is_connect = (case method of None \<Rightarrow> False | Some nv \<Rightarrow> ''CONNECT'' = snd nv);
                   having_host = non_empty_value host;
                   having_authority = non_empty_value authority
               in
               if (if is_connect then scheme \<noteq> None \<or> path \<noteq> None \<or> \<not> having_authority
                   else \<not> non_empty_value method \<or>
                        \<not> non_empty_value scheme \<or>
                        (http2_proxy x \<and> \<not> having_authority) \<or>
                        (\<not> http2_proxy x \<and> \<not> having_authority \<and> \<not> having_host) \<or>
                        \<not> non_empty_value path)
               then rst_stream_return x s0 ds NGHTTP2_PROTOCOL_ERROR
               else
               if \<not> is_connect \<and> hd_flags frame AND NGHTTP2_FLAG_END_STREAM = 0 \<and>
                  (case get_header x nva ''content-length'' of
                     None \<Rightarrow> True
                   | Some content_length \<Rightarrow> value_lws x content_length)
               then rst_stream_return x s0 ds NGHTTP2_PROTOCOL_ERROR
               else
               let ds1 = ds\<lparr>request_method := value_to_str method,
                            request_http2_scheme := value_to_str scheme,
                            request_http2_authority := value_to_str authority,
                            request_path := value_to_str path\<rparr>;
                   ds2 = ds1\<lparr>upgrade_request := check_upgrade_request x ds1\<rparr>;
                   dc = get_downstream_connection x;
                   s1 = log s0 (Attach_downstream dc downstream)
               in
               if attach_downstream_rv x \<noteq> 0 then
                 (case rst_stream x s1 ds2 NGHTTP2_INTERNAL_ERROR of
                    Inl e \<Rightarrow> Inl e
                  | Inr (rv, s2) \<Rightarrow>
                      Inr (0, store s2 downstream (ds2\<lparr>request_state := CONNECT_FAIL\<rparr>)))
               else
               let ds3 = ds2\<lparr>downstream_connection := Some dc\<rparr>;
                   s2 = log s1 (Push_request_headers downstream)
               in
               if push_request_headers_rv x \<noteq> 0 then
                 (case rst_stream x s2 ds3 NGHTTP2_INTERNAL_ERROR of
                    Inl e \<Rightarrow> Inl e
                  | Inr (rv, s3) \<Rightarrow> Inr (0, store s3 downstream ds3))
               else
               let ds4 = ds3\<lparr>request_state := HEADER_COMPLETE\<rparr>;
                   ds5 = (if hd_flags frame AND NGHTTP2_FLAG_END_STREAM \<noteq> 0
                          then ds4\<lparr>request_state := MSG_COMPLETE\<rparr> else ds4)
               in Inr (0, store s2 downstream ds5)))"

subsection \<open>Received frames\<close>

text \<open>Modelled from the spec: \<^verbatim>\<open>Downstream::end_upload_data\<close> and
  \<^verbatim>\<open>Downstream::change_priority\<close> are not part of the sources. The first signals the end
  of the upload to the origin, the second forwards the new priority to the Stream.\<close>

definition on_frame_recv_callback ::
  "env \<Rightarrow> state \<Rightarrow> nghttp2_frame \<Rightarrow> abort + (int \<times> state)" where
  "on_frame_recv_callback x s frame =
     (if hd_type frame = NGHTTP2_DATA then
        (case find_downstream s (hd_stream_id frame) of
           None \<Rightarrow> Inr (0, s)
         | Some downstream \<Rightarrow>
             if hd_flags frame AND NGHTTP2_FLAG_END_STREAM \<noteq> 0 then
               (case heap s downstream of
                  None \<Rightarrow> Inl Invalid_pointer
                | Some ds \<Rightarrow>
                    Inr (0, store (log s (End_upload_data downstream)) downstream
                              (ds\<lparr>request_state := MSG_COMPLETE\<rparr>)))
             else Inr (0, s))
      else if hd_type frame = NGHTTP2_HEADERS then on_request_headers x s frame
      else if hd_type frame = NGHTTP2_PRIORITY then
        (case find_downstream s (hd_stream_id frame) of
           None \<Rightarrow> Inr (0, s)
         | Some downstream \<Rightarrow>
             (case heap s downstream of
                None \<Rightarrow> Inl Invalid_pointer
              | Some ds \<Rightarrow>
                  let s1 = store (log s (Change_priority downstream (priority_pri frame)))
                             downstream (ds\<lparr>priority := priority_pri frame\<rparr>)
                  in if change_priority_rv x \<noteq> 0 then Inr (NGHTTP2_ERR_CALLBACK_FAILURE, s1)
                     else Inr (0, s1)))
      else if hd_type frame = NGHTTP2_SETTINGS then
        (if hd_flags frame AND NGHTTP2_FLAG_ACK = 0 then Inr (0, s)
         else Inr (0, stop_settings_timer s))
      else if hd_type frame = NGHTTP2_PUSH_PROMISE then
        (let s1 = log s (Submit_rst_stream (push_promise_promised_stream_id frame)
                           NGHTTP2_REFUSED_STREAM)
         in if submit_rst_stream_rv x \<noteq> 0 then Inr (NGHTTP2_ERR_CALLBACK_FAILURE, s1)
            else Inr (0, s1))
      else Inr (0, s))"

subsection \<open>The session driver\<close>

text \<open>The loop of \<^verbatim>\<open>Http2Upstream::send\<close> over the answers of the codec: \<open>None\<close> when the
  loop is left by \<^verbatim>\<open>break\<close>, \<open>Some rv\<close> when the function returns \<open>rv\<close> from inside
  the loop.\<close>

fun send_loop :: "(int \<times> bool) list \<Rightarrow> state \<Rightarrow> int option \<times> state" where
  "send_loop [] s = (None, s)"
| "send_loop ((datalen, add_fails) # rest) s =
     (if outbuf_length s > OUTBUF_MAX_THRES then (None, s)
      else if datalen < 0 then (Some (- 1), s)
      else if datalen = 0 then (None, s)
      else if add_fails then (Some (- 1), s)
      else send_loop rest (s\<lparr>outbuf_length := outbuf_length s + nat datalen\<rparr>))"

definition send :: "env \<Rightarrow> state \<Rightarrow> int \<times> state" where
  "send x s =
     (case send_loop (mem_send x) (log s Http2Upstream_send) of
        (Some rv, s1) \<Rightarrow> (rv, s1)
      | (None, s1) \<Rightarrow>
          if want_read x = 0 \<and> want_write x = 0 \<and> outbuf_length s1 = 0 then (- 1, s1)
          else (0, s1))"

subsection \<open>Error replies\<close>

definition error_reply ::
  "env \<Rightarrow> state \<Rightarrow> Downstream \<Rightarrow> nat \<Rightarrow> abort + (int \<times> state \<times> Downstream)" where
  "error_reply x s ds status_code =
     (let html = create_error_html x status_code;
          ds1 = init_response_body_buf x ds
      in case response_body_buf ds1 of
           None \<Rightarrow> Inl Invalid_pointer
         | Some body \<Rightarrow>
             if evbuffer_add_fails x then Inr (- 1, s, ds1)
             else
               let ds2 = ds1\<lparr>response_body_buf := Some (body @ html)\<rparr>;
                   ds3 = ds2\<lparr>response_state := MSG_COMPLETE\<rparr>;
                   content_length = utos x (length html);
                   status_code_str = utos x status_code;
                   nva = [('':status'', status_code_str),
                          (''content-type'', ''text/html; charset=UTF-8''),
                          (''server'', server_name x),
                          (''content-length'', content_length)];
                   s1 = log s (Submit_response (stream_id ds3) nva)
               in if submit_response_rv x < NGHTTP2_ERR_FATAL then Inl Die
                  else Inr (0, s1, ds3))"

subsection \<open>The response data source\<close>

text \<open>The callback gets the stream-id, the capacity \<open>len\<close> of the output span, the value
  of \<^verbatim>\<open>*eof\<close> on entry and the Stream; it gives its return value, the bytes written to the
  span, the value of \<^verbatim>\<open>*eof\<close> on return and the new state. \<^verbatim>\<open>evbuffer_remove\<close> moves up
  to \<open>len\<close> bytes from the front of the buffer to the span and returns their number.\<close>

definition downstream_data_read_callback ::
  "env \<Rightarrow> state \<Rightarrow> int \<Rightarrow> nat \<Rightarrow> int \<Rightarrow> addr \<Rightarrow> abort + (int \<times> string \<times> int \<times> state)" where
  "downstream_data_read_callback x s sid len eof downstream =
     (case heap s downstream of
        None \<Rightarrow> Inl Invalid_pointer
      | Some ds \<Rightarrow>
          (case response_body_buf ds of
             None \<Rightarrow> Inl Assert_failed
           | Some body \<Rightarrow>
               if evbuffer_remove_fails x then Inr (NGHTTP2_ERR_CALLBACK_FAILURE, [], eof, s)
               else
                 let nread = min len (length body);
                     buf = take len body;
                     ds1 = ds\<lparr>response_body_buf := Some (drop len body)\<rparr>;
                     s1 = store s downstream ds1
                 in
                 case (if nread = 0 \<and> response_state ds1 = MSG_COMPLETE then
                         (if \<not> upgraded ds1 then Inr (1, s1)
                          else
                            (case rst_stream x s1 ds1
                                    (infer_upstream_rst_stream_error_code
                                       (response_rst_stream_error_code ds1)) of
                               Inl e \<Rightarrow> Inl e
                             | Inr (rv, s2) \<Rightarrow> Inr (eof, s2)))
                       else Inr (eof, s1)) of
                   Inl e \<Rightarrow> Inl e
                 | Inr (eof1, s2) \<Rightarrow>
                     (case (if eof1 \<noteq> 1 \<and>
                               outbuf_length s2 + length (drop len body) < OUTBUF_MAX_THRES
                            then
                              (let s3 = log s2 (Downstream_resume_read downstream)
                               in if resume_read_rv x \<noteq> 0
                                  then (Some NGHTTP2_ERR_CALLBACK_FAILURE, s3)
                                  else (None, s3))
                            else (None, s2)) of
                        (Some rv, s3) \<Rightarrow> Inr (rv, buf, eof1, s3)
                      | (None, s3) \<Rightarrow>
                          if nread = 0 \<and> eof1 \<noteq> 1 then Inr (NGHTTP2_ERR_DEFERRED, buf, eof1, s3)
                          else Inr (int nread, buf, eof1, s3))))"

subsection \<open>Reading from the origin\<close>

text \<open>The statement \<^verbatim>\<open>if(upstream->send() != 0) { delete upstream->get_client_handler();
  return; }\<close> that ends the callback.\<close>

definition send_or_delete_handler :: "env \<Rightarrow> state \<Rightarrow> abort + state" where
  "send_or_delete_handler x s =
     (case send x s of
        (rv, s1) \<Rightarrow> if rv \<noteq> 0 then Inr (log s1 Delete_client_handler) else Inr s1)"

text \<open>The callback gets the origin connection and the Stream it is attached to
  (\<^verbatim>\<open>dconn->get_downstream()\<close>). \<^verbatim>\<open>Downstream::on_read\<close> runs the parser of the origin
  connection, which changes the Stream and answers a return code.\<close>

definition downstream_readcb :: "env \<Rightarrow> state \<Rightarrow> dconn \<Rightarrow> addr \<Rightarrow> abort + state" where
  "downstream_readcb x s dc downstream =
     (case heap s downstream of
        None \<Rightarrow> Inl Invalid_pointer
      | Some ds \<Rightarrow>
          if request_state ds = STREAM_CLOSED then
            Inr (delete_downstream (remove_downstream s ds) downstream ds)
          else if response_state ds = MSG_RESET then
            (case rst_stream x s ds
                    (infer_upstream_rst_stream_error_code (response_rst_stream_error_code ds)) of
               Inl e \<Rightarrow> Inl e
             | Inr (rv, s1) \<Rightarrow>
                 let ds1 = ds\<lparr>downstream_connection := None\<rparr>;
                     s2 = log (store s1 downstream ds1) (Delete_dconn dc)
                 in send_or_delete_handler x s2)
          else
            (case on_read x ds of
               (rv, ds1) \<Rightarrow>
                 let s1 = store (log s (Downstream_on_read downstream)) downstream ds1 in
                 if rv \<noteq> 0 then
                   (case (if response_state ds1 = HEADER_COMPLETE then
                            (case rst_stream x s1 ds1 NGHTTP2_INTERNAL_ERROR of
                               Inl e \<Rightarrow> Inl e
                             | Inr (rv1, s2) \<Rightarrow> Inr (0, s2, ds1))
                          else if response_state ds1 \<noteq> MSG_COMPLETE then
                            error_reply x s1 ds1 502
                          else Inr (0, s1, ds1)) of
                      Inl e \<Rightarrow> Inl e
                    | Inr (rv2, s2, ds2) \<Rightarrow>
                        if rv2 \<noteq> 0 then
                          Inr (log (store s2 downstream ds2) Delete_client_handler)
                        else
                          let ds3 = ds2\<lparr>response_state := MSG_COMPLETE,
                                       downstream_connection := None\<rparr>;
                              s3 = log (store s2 downstream ds3) (Delete_dconn dc)
                          in send_or_delete_handler x s3)
                 else send_or_delete_handler x s1))"

section \<open>Notions used to state the properties\<close>

text \<open>Request validation as the spec words it: the general header check passes; a
  CONNECT request has a non-empty authority and neither scheme nor path; any other
  request has non-empty method, scheme and path, a non-empty authority (or, unless
  configured as an HTTP/2 proxy, a non-empty host), and, when the HEADERS frame does not
  carry END\_STREAM, a content-length that is present and not LWS-only.\<close>

definition request_accepted :: "env \<Rightarrow> Headers \<Rightarrow> nghttp2_frame \<Rightarrow> bool" where
  "request_accepted x nva frame =
     (let host = get_unique_header x nva ''host'';
          authority = get_unique_header x nva '':authority'';
          path = get_unique_header x nva '':path'';
          method = get_unique_header x nva '':method'';
          scheme = get_unique_header x nva '':scheme'';
          is_connect = (case method of None \<Rightarrow> False | Some nv \<Rightarrow> ''CONNECT'' = snd nv)
      in check_http2_headers x nva \<and>
         (if is_connect then
            non_empty_value authority \<and> scheme = None \<and> path = None
          else
            non_empty_value method \<and> non_empty_value scheme \<and> non_empty_value path \<and>
            (if http2_proxy x then non_empty_value authority
             else non_empty_value authority \<or> non_empty_value host) \<and>
            (hd_flags frame AND NGHTTP2_FLAG_END_STREAM = 0 \<longrightarrow>
               (case get_header x nva ''content-length'' of
                  None \<Rightarrow> False
                | Some content_length \<Rightarrow> \<not> value_lws x content_length))))"

text \<open>The codec reports the frames it has sent one after the other and stops at the first
  callback that fails.\<close>

fun frames_sent :: "env \<Rightarrow> state \<Rightarrow> nghttp2_frame list \<Rightarrow> int \<times> state" where
  "frames_sent x s [] = (0, s)"
| "frames_sent x s (frame # frames) =
     (case on_frame_send_callback x s frame of
        (rv, s1) \<Rightarrow> if rv \<noteq> 0 then (rv, s1) else frames_sent x s1 frames)"

subsection \<open>A sample environment and sample inputs\<close>

text \<open>The decimal digits of a number.\<close>

fun decimal :: "nat \<Rightarrow> string" where
  "decimal n =
     (if n < 10 then [''0123456789'' ! n]
      else decimal (n div 10) @ [''0123456789'' ! (n mod 10)])"

text \<open>Every collaborator succeeds. The header helpers are in a simple form: a unique
  header is the only one of its name, LWS is space and horizontal tab.\<close>

definition sample_env :: env where
  "sample_env =
     \<lparr>http2_proxy = False, server_name = ''shrpx'', MAX_HEADERS_SUM = 65536,
      check_nv = (\<lambda>name val. True),
      split_add_header = (\<lambda>name val. [(name, val)]),
      normalize_headers = (\<lambda>nva. nva),
      check_http2_headers = (\<lambda>nva. True),
      get_unique_header =
        (\<lambda>nva name. case filter (\<lambda>nv. fst nv = name) nva of [nv] \<Rightarrow> Some nv | _ \<Rightarrow> None),
      get_header = (\<lambda>nva name. find (\<lambda>nv. fst nv = name) nva),
      value_lws = (\<lambda>nv. list_all (\<lambda>c. c = CHR '' '' \<or> c = CHR 0x09) (snd nv)),
      check_upgrade_request = (\<lambda>ds. request_method ds = ''CONNECT''),
      init_existing_body_buf = (\<lambda>body. body),
      create_error_html = (\<lambda>status. ''<html><body>error</body></html>''),
      utos = decimal,
      get_downstream_connection = 7,
      attach_downstream_rv = 0, push_request_headers_rv = 0, change_priority_rv = 0,
      submit_rst_stream_rv = 0, submit_response_rv = 0,
      evtimer_new_fails = False, evtimer_add_fails = False,
      evbuffer_add_fails = False, evbuffer_remove_fails = False,
      resume_read_rv = 0, on_read = (\<lambda>ds. (0, ds)), mem_send = [],
      want_read = 1, want_write = 0\<rparr>"

text \<open>A session whose only Stream is \<open>ds\<close>, at address 0.\<close>

definition sample_state :: "Downstream \<Rightarrow> state" where
  "sample_state ds =
     \<lparr>heap = [0 \<mapsto> ds], brk = 1, downstream_queue = [stream_id ds \<mapsto> 0],
      settings_timerev = None, outbuf_length = 0, calls = []\<rparr>"

definition sample_frame :: "8 word \<Rightarrow> 8 word \<Rightarrow> nghttp2_frame" where
  "sample_frame type flags =
     \<lparr>hd_type = type, hd_flags = flags, hd_stream_id = 1,
      headers_cat = NGHTTP2_HCAT_REQUEST, headers_pri = 0, priority_pri = 0,
      push_promise_promised_stream_id = 0\<rparr>"

text \<open>Stream 1 after its begin-headers callback, carrying the request headers \<open>nva\<close>.\<close>

definition sample_stream :: "Headers \<Rightarrow> Downstream" where
  "sample_stream nva =
     (init_response_body_buf sample_env (new_Downstream 1 0))\<lparr>request_headers := nva\<rparr>"

text \<open>A GET request and a CONNECT request that also carries a scheme.\<close>

definition sample_get :: Headers where
  "sample_get =
     [('':authority'', ''a.example''), ('':method'', ''GET''), ('':path'', ''/x''),
      ('':scheme'', ''https'')]"

definition sample_connect :: Headers where
  "sample_connect =
     [('':authority'', ''a.example:443''), ('':method'', ''CONNECT''),
      ('':scheme'', ''https'')]"

definition sample_post :: Headers where
  "sample_post =
     [('':authority'', ''a.example''), ('':method'', ''POST''), ('':path'', ''/x''),
      ('':scheme'', ''https'')]"

text \<open>A session without streams, and a header value of 39999 bytes.\<close>

definition initial_state :: state where
  "initial_state =
     \<lparr>heap = Map.empty, brk = 0, downstream_queue = Map.empty, settings_timerev = None,
      outbuf_length = 0, calls = []\<rparr>"

definition big_value :: string where
  "big_value = replicate 39999 (CHR ''a'')"

section \<open>Properties\<close>

subsection \<open>Auxiliary facts\<close>

lemmas sample_defs = sample_env_def sample_state_def sample_frame_def sample_stream_def
  new_Downstream_def init_response_body_buf_def find_downstream_def

lemma non_empty_value_simps [simp]:
  "non_empty_value None = False" "non_empty_value (Some nv) = (snd nv \<noteq> [])"
  by (simp_all add: non_empty_value_def)

lemma rst_stream_return_ok:
  "NGHTTP2_ERR_FATAL \<le> submit_rst_stream_rv x \<Longrightarrow>
   rst_stream_return x s ds c = Inr (0, log s (Submit_rst_stream (stream_id ds) c))"
  by (simp add: rst_stream_return_def rst_stream_def Let_def)

lemma on_request_headers_rejected:
  assumes "find_downstream s (hd_stream_id frame) = Some p" and "heap s p = Some ds"
    and "\<not> request_accepted x (normalize_headers x (request_headers ds)) frame"
  shows "on_request_headers x s frame =
           rst_stream_return x
             (store s p (ds\<lparr>request_headers := normalize_headers x (request_headers ds)\<rparr>))
             (ds\<lparr>request_headers := normalize_headers x (request_headers ds)\<rparr>)
             NGHTTP2_PROTOCOL_ERROR"
proof (cases "get_unique_header x (normalize_headers x (request_headers ds)) '':method''")
  case None
  then show ?thesis
    using assms unfolding on_request_headers_def
    by (simp add: Let_def)
next
  case (Some m)
  show ?thesis
  proof (cases "''CONNECT'' = snd m")
    case True
    then show ?thesis
      using assms Some unfolding request_accepted_def on_request_headers_def
      by (auto simp add: Let_def)
  next
    case False
    then show ?thesis
      using assms Some unfolding request_accepted_def on_request_headers_def
      by (cases "http2_proxy x"; cases "get_header x (normalize_headers x (request_headers ds)) ''content-length''")
         (auto simp add: Let_def)
  qed
qed

lemma on_request_headers_reset:
  assumes "find_downstream s (hd_stream_id frame) = Some p" and "heap s p = Some ds"
    and "\<not> request_accepted x (normalize_headers x (request_headers ds)) frame"
    and "NGHTTP2_ERR_FATAL \<le> submit_rst_stream_rv x"
  shows "\<exists>s' ds'. on_request_headers x s frame = Inr (0, s') \<and> heap s' p = Some ds'
           \<and> request_state ds' = request_state ds
           \<and> calls s' = calls s @ [Submit_rst_stream (stream_id ds) NGHTTP2_PROTOCOL_ERROR]"
  by (simp add: on_request_headers_rejected [OF assms(1-3)] rst_stream_return_ok [OF assms(4)]
      log_def store_def)

lemma frames_sent_armed:
  assumes "settings_timerev s \<noteq> None"
    and "\<forall>f \<in> set frames. hd_type f = NGHTTP2_SETTINGS \<and> hd_flags f AND NGHTTP2_FLAG_ACK = 0"
  shows "frames_sent x s frames = (0, s)"
  using assms
  by (induction frames) (simp_all add: on_frame_send_callback_def start_settings_timer_def)

lemma min_eq_0_iff: "min (a::nat) b = 0 \<longleftrightarrow> a = 0 \<or> b = 0"
  by (auto simp add: min_def)

lemma send_loop_calls: "calls (snd (send_loop l s)) = calls s"
  by (induction l s rule: send_loop.induct) simp_all

lemma send_calls: "calls (snd (send x s)) = calls s @ [Http2Upstream_send]"
proof -
  obtain r s1 where l: "send_loop (mem_send x) (log s Http2Upstream_send) = (r, s1)"
    by (cases "send_loop (mem_send x) (log s Http2Upstream_send)")
  have "calls s1 = calls s @ [Http2Upstream_send]"
    using send_loop_calls [of "mem_send x" "log s Http2Upstream_send"] l
    by (simp add: log_def)
  then show ?thesis
    by (cases r) (simp_all add: send_def l)
qed

text \<open>What \<open>error_reply\<close> does, for any treatment of an existing buffer by
  \<^verbatim>\<open>init_response_body_buf\<close>.\<close>

lemma error_reply_eq:
  "error_reply x s ds status_code =
     (let html = create_error_html x status_code;
          body0 = (case response_body_buf ds of
                     None \<Rightarrow> [] | Some body \<Rightarrow> init_existing_body_buf x body)
      in if evbuffer_add_fails x then Inr (- 1, s, ds\<lparr>response_body_buf := Some body0\<rparr>)
         else if submit_response_rv x < NGHTTP2_ERR_FATAL then Inl Die
         else Inr (0,
                   log s (Submit_response (stream_id ds)
                            [('':status'', utos x status_code),
                             (''content-type'', ''text/html; charset=UTF-8''),
                             (''server'', server_name x),
                             (''content-length'', utos x (length html))]),
                   ds\<lparr>response_body_buf := Some (body0 @ html),
                      response_state := MSG_COMPLETE\<rparr>))"
  by (cases "response_body_buf ds")
     (simp_all add: error_reply_def init_response_body_buf_def Let_def)

text \<open>
  Claim C1. On the headers-complete event of a request whose validation passed: when
  attaching the origin connection fails, the stream is reset with INTERNAL\_ERROR and the
  request state becomes CONNECT\_FAIL; when the attach succeeds and pushing the request
  headers fails, the stream is reset with INTERNAL\_ERROR and the request state is left
  as it was; when both succeed, the request state becomes MSG\_COMPLETE if the HEADERS
  frame carried END\_STREAM and HEADER\_COMPLETE otherwise. The codec is taken not to
  report a fatal error when the reset is submitted.
\<close>

theorem on_request_headers_origin:
  assumes "find_downstream s (hd_stream_id frame) = Some p" and "heap s p = Some ds"
    and "request_accepted x (normalize_headers x (request_headers ds)) frame"
  shows "(attach_downstream_rv x \<noteq> 0 \<and> NGHTTP2_ERR_FATAL \<le> submit_rst_stream_rv x \<longrightarrow>
            (\<exists>s' ds'. on_request_headers x s frame = Inr (0, s') \<and> heap s' p = Some ds'
               \<and> calls s' = calls s @ [Attach_downstream (get_downstream_connection x) p,
                                       Submit_rst_stream (stream_id ds) NGHTTP2_INTERNAL_ERROR]
               \<and> request_state ds' = CONNECT_FAIL))
       \<and> (attach_downstream_rv x = 0 \<and> push_request_headers_rv x \<noteq> 0
            \<and> NGHTTP2_ERR_FATAL \<le> submit_rst_stream_rv x \<longrightarrow>
            (\<exists>s' ds'. on_request_headers x s frame = Inr (0, s') \<and> heap s' p = Some ds'
               \<and> calls s' = calls s @ [Attach_downstream (get_downstream_connection x) p,
                                       Push_request_headers p,
                                       Submit_rst_stream (stream_id ds) NGHTTP2_INTERNAL_ERROR]
               \<and> request_state ds' = request_state ds))
       \<and> (attach_downstream_rv x = 0 \<and> push_request_headers_rv x = 0 \<longrightarrow>
            (\<exists>s' ds'. on_request_headers x s frame = Inr (0, s') \<and> heap s' p = Some ds'
               \<and> calls s' = calls s @ [Attach_downstream (get_downstream_connection x) p,
                                       Push_request_headers p]
               \<and> request_state ds' =
                   (if hd_flags frame AND NGHTTP2_FLAG_END_STREAM \<noteq> 0 then MSG_COMPLETE
                    else HEADER_COMPLETE)))"
proof (cases "get_unique_header x (normalize_headers x (request_headers ds)) '':method''")
  case None
  then show ?thesis
    using assms unfolding request_accepted_def
    by (simp add: Let_def)
next
  case (Some m)
  show ?thesis
  proof (cases "''CONNECT'' = snd m")
    case True
    then show ?thesis
      using assms Some unfolding request_accepted_def on_request_headers_def
      by (simp add: Let_def rst_stream_def log_def store_def)
  next
    case False
    then show ?thesis
      using assms Some unfolding request_accepted_def on_request_headers_def
      by (cases "http2_proxy x";
          cases "get_header x (normalize_headers x (request_headers ds)) ''content-length''")
         (auto simp add: Let_def rst_stream_def log_def store_def)
  qed
qed

theorem on_request_headers_origin_witness:
  "(\<exists>s' ds'. on_request_headers (sample_env\<lparr>attach_downstream_rv := - 1\<rparr>)
               (sample_state (sample_stream sample_get)) (sample_frame NGHTTP2_HEADERS 1)
             = Inr (0, s') \<and> heap s' 0 = Some ds'
             \<and> calls s' = [Attach_downstream 7 0, Submit_rst_stream 1 NGHTTP2_INTERNAL_ERROR]
             \<and> request_state ds' = CONNECT_FAIL)
   \<and> (\<exists>s' ds'. on_request_headers (sample_env\<lparr>push_request_headers_rv := - 1\<rparr>)
               (sample_state (sample_stream sample_get)) (sample_frame NGHTTP2_HEADERS 1)
             = Inr (0, s') \<and> heap s' 0 = Some ds'
             \<and> calls s' = [Attach_downstream 7 0, Push_request_headers 0,
                           Submit_rst_stream 1 NGHTTP2_INTERNAL_ERROR]
             \<and> request_state ds' = INITIAL)
   \<and> (\<exists>s' ds'. on_request_headers sample_env
               (sample_state (sample_stream sample_get)) (sample_frame NGHTTP2_HEADERS 1)
             = Inr (0, s') \<and> heap s' 0 = Some ds'
             \<and> calls s' = [Attach_downstream 7 0, Push_request_headers 0]
             \<and> request_state ds' = MSG_COMPLETE)"
  using on_request_headers_origin [of "sample_state (sample_stream sample_get)"
      "sample_frame NGHTTP2_HEADERS 1" 0 "sample_stream sample_get"
      "sample_env\<lparr>attach_downstream_rv := - 1\<rparr>"]
    on_request_headers_origin [of "sample_state (sample_stream sample_get)"
      "sample_frame NGHTTP2_HEADERS 1" 0 "sample_stream sample_get"
      "sample_env\<lparr>push_request_headers_rv := - 1\<rparr>"]
    on_request_headers_origin [of "sample_state (sample_stream sample_get)"
      "sample_frame NGHTTP2_HEADERS 1" 0 "sample_stream sample_get" sample_env]
  by (simp add: sample_defs sample_get_def request_accepted_def Let_def
      NGHTTP2_ERR_FATAL_def NGHTTP2_FLAG_END_STREAM_def)

text \<open>
  Claim C2. On the close of a stream that is in the table, the Stream leaves the table
  and is destroyed in every branch. A Stream in state CONNECT\_FAIL is destroyed as it
  is; any other is destroyed in request state STREAM\_CLOSED, and the origin connection
  it holds is detached first exactly when the response state is MSG\_COMPLETE, the stream
  is not upgraded and the origin did not require connection-close.
\<close>

theorem on_stream_close_callback_spec:
  assumes "find_downstream s sid = Some p" and "heap s p = Some ds" and "stream_id ds = sid"
  shows "\<exists>s' ds'. on_stream_close_callback s sid = Inr (0, s')
           \<and> downstream_queue s' = (downstream_queue s)(sid := None)
           \<and> heap s' = (heap s)(p := None)
           \<and> calls s' = calls s
               @ (case downstream_connection ds of
                    None \<Rightarrow> []
                  | Some dc \<Rightarrow>
                      if request_state ds \<noteq> CONNECT_FAIL \<and> response_state ds = MSG_COMPLETE
                         \<and> \<not> upgraded ds \<and> \<not> response_connection_close ds
                      then [Detach_downstream dc p] else [])
               @ [Delete_Downstream p ds']
           \<and> request_state ds' =
               (if request_state ds = CONNECT_FAIL then CONNECT_FAIL else STREAM_CLOSED)"
  using assms
  by (auto simp: on_stream_close_callback_def delete_downstream_def remove_downstream_def
      detach_downstream_def log_def Let_def split: option.splits)

theorem on_stream_close_callback_spec_witness:
  "\<exists>s' ds'. on_stream_close_callback
               (sample_state ((sample_stream [])\<lparr>response_state := MSG_COMPLETE,
                                                 downstream_connection := Some 7\<rparr>)) 1
             = Inr (0, s')
           \<and> downstream_queue s' = Map.empty
           \<and> heap s' = Map.empty
           \<and> calls s' = [Detach_downstream 7 0, Delete_Downstream 0 ds']
           \<and> request_state ds' = STREAM_CLOSED"
  using on_stream_close_callback_spec
    [of "sample_state ((sample_stream [])\<lparr>response_state := MSG_COMPLETE,
                                          downstream_connection := Some 7\<rparr>)" 1 0
        "(sample_stream [])\<lparr>response_state := MSG_COMPLETE, downstream_connection := Some 7\<rparr>"]
  by (simp add: sample_defs)

text \<open>
  Claim C5. For a request whose method is CONNECT: when a scheme is present, or a path is
  present, or the authority is absent or empty, the stream is reset with PROTOCOL\_ERROR
  and the request state of the Stream is left as it was; otherwise, the general header
  check having passed, the handler goes on to attach the origin connection and no
  PROTOCOL\_ERROR reset is submitted.
\<close>

theorem on_request_headers_connect:
  assumes "find_downstream s (hd_stream_id frame) = Some p" and "heap s p = Some ds"
    and "get_unique_header x (normalize_headers x (request_headers ds)) '':method'' = Some m"
    and "snd m = ''CONNECT''"
    and "NGHTTP2_ERR_FATAL \<le> submit_rst_stream_rv x"
  shows "(get_unique_header x (normalize_headers x (request_headers ds)) '':scheme'' \<noteq> None
          \<or> get_unique_header x (normalize_headers x (request_headers ds)) '':path'' \<noteq> None
          \<or> \<not> non_empty_value
                (get_unique_header x (normalize_headers x (request_headers ds)) '':authority'')
          \<longrightarrow>
            (\<exists>s' ds'. on_request_headers x s frame = Inr (0, s') \<and> heap s' p = Some ds'
               \<and> request_state ds' = request_state ds
               \<and> calls s' = calls s @ [Submit_rst_stream (stream_id ds) NGHTTP2_PROTOCOL_ERROR]))
       \<and> (get_unique_header x (normalize_headers x (request_headers ds)) '':scheme'' = None
          \<and> get_unique_header x (normalize_headers x (request_headers ds)) '':path'' = None
          \<and> non_empty_value
                (get_unique_header x (normalize_headers x (request_headers ds)) '':authority'')
          \<and> check_http2_headers x (normalize_headers x (request_headers ds))
          \<longrightarrow>
            (\<exists>s' cs. on_request_headers x s frame = Inr (0, s')
               \<and> calls s' = calls s @ Attach_downstream (get_downstream_connection x) p # cs
               \<and> Submit_rst_stream (stream_id ds) NGHTTP2_PROTOCOL_ERROR \<notin> set cs))"
proof (intro conjI impI)
  assume bad: "get_unique_header x (normalize_headers x (request_headers ds)) '':scheme'' \<noteq> None
          \<or> get_unique_header x (normalize_headers x (request_headers ds)) '':path'' \<noteq> None
          \<or> \<not> non_empty_value
                (get_unique_header x (normalize_headers x (request_headers ds)) '':authority'')"
  have rejected: "\<not> request_accepted x (normalize_headers x (request_headers ds)) frame"
    using bad assms(3,4) unfolding request_accepted_def by (auto simp add: Let_def)
  show "\<exists>s' ds'. on_request_headers x s frame = Inr (0, s') \<and> heap s' p = Some ds'
               \<and> request_state ds' = request_state ds
               \<and> calls s' = calls s @ [Submit_rst_stream (stream_id ds) NGHTTP2_PROTOCOL_ERROR]"
    by (rule on_request_headers_reset [OF assms(1,2) rejected assms(5)])
next
  assume good: "get_unique_header x (normalize_headers x (request_headers ds)) '':scheme'' = None
          \<and> get_unique_header x (normalize_headers x (request_headers ds)) '':path'' = None
          \<and> non_empty_value
                (get_unique_header x (normalize_headers x (request_headers ds)) '':authority'')
          \<and> check_http2_headers x (normalize_headers x (request_headers ds))"
  show "\<exists>s' cs. on_request_headers x s frame = Inr (0, s')
               \<and> calls s' = calls s @ Attach_downstream (get_downstream_connection x) p # cs
               \<and> Submit_rst_stream (stream_id ds) NGHTTP2_PROTOCOL_ERROR \<notin> set cs"
    using good assms unfolding on_request_headers_def
    by (simp add: Let_def rst_stream_def log_def store_def NGHTTP2_PROTOCOL_ERROR_def
        NGHTTP2_INTERNAL_ERROR_def)
qed

theorem on_request_headers_connect_witness:
  "(\<exists>s' ds'. on_request_headers sample_env (sample_state (sample_stream sample_connect))
             (sample_frame NGHTTP2_HEADERS 0) = Inr (0, s')
           \<and> heap s' 0 = Some ds' \<and> request_state ds' = INITIAL
           \<and> calls s' = [Submit_rst_stream 1 NGHTTP2_PROTOCOL_ERROR])
   \<and> (\<exists>s' cs. on_request_headers sample_env (sample_state (sample_stream (butlast sample_connect)))
             (sample_frame NGHTTP2_HEADERS 0) = Inr (0, s')
           \<and> calls s' = Attach_downstream 7 0 # cs
           \<and> Submit_rst_stream 1 NGHTTP2_PROTOCOL_ERROR \<notin> set cs)"
  using on_request_headers_connect [of "sample_state (sample_stream sample_connect)"
      "sample_frame NGHTTP2_HEADERS 0" 0 "sample_stream sample_connect" sample_env
      "('':method'', ''CONNECT'')"]
    on_request_headers_connect [of "sample_state (sample_stream (butlast sample_connect))"
      "sample_frame NGHTTP2_HEADERS 0" 0 "sample_stream (butlast sample_connect)" sample_env
      "('':method'', ''CONNECT'')"]
  by (simp add: sample_defs sample_connect_def NGHTTP2_ERR_FATAL_def)

text \<open>
  Claim C6. For a request whose method is not CONNECT and whose HEADERS frame did not
  carry END\_STREAM: when the content-length header is absent, or its value is LWS-only,
  the stream is reset with PROTOCOL\_ERROR and the request state of the Stream is left as
  it was.
\<close>

theorem on_request_headers_content_length:
  assumes "find_downstream s (hd_stream_id frame) = Some p" and "heap s p = Some ds"
    and "\<forall>m. get_unique_header x (normalize_headers x (request_headers ds)) '':method'' = Some m
           \<longrightarrow> snd m \<noteq> ''CONNECT''"
    and "hd_flags frame AND NGHTTP2_FLAG_END_STREAM = 0"
    and "get_header x (normalize_headers x (request_headers ds)) ''content-length'' = None
         \<or> (\<exists>cl. get_header x (normalize_headers x (request_headers ds)) ''content-length'' = Some cl
               \<and> value_lws x cl)"
    and "NGHTTP2_ERR_FATAL \<le> submit_rst_stream_rv x"
  shows "\<exists>s' ds'. on_request_headers x s frame = Inr (0, s') \<and> heap s' p = Some ds'
           \<and> request_state ds' = request_state ds
           \<and> calls s' = calls s @ [Submit_rst_stream (stream_id ds) NGHTTP2_PROTOCOL_ERROR]"
proof -
  have rejected: "\<not> request_accepted x (normalize_headers x (request_headers ds)) frame"
    using assms(3-5) unfolding request_accepted_def
    by (cases "get_unique_header x (normalize_headers x (request_headers ds)) '':method''")
       (auto simp add: Let_def)
  show ?thesis
    by (rule on_request_headers_reset [OF assms(1,2) rejected assms(6)])
qed

theorem on_request_headers_content_length_witness:
  "\<exists>s' ds'. on_request_headers sample_env (sample_state (sample_stream sample_post))
             (sample_frame NGHTTP2_HEADERS 0) = Inr (0, s')
           \<and> heap s' 0 = Some ds'
           \<and> request_state ds' = INITIAL
           \<and> calls s' = [Submit_rst_stream 1 NGHTTP2_PROTOCOL_ERROR]"
  using on_request_headers_content_length [of "sample_state (sample_stream sample_post)"
      "sample_frame NGHTTP2_HEADERS 0" 0 "sample_stream sample_post" sample_env]
  by (simp add: sample_defs sample_post_def NGHTTP2_ERR_FATAL_def)

text \<open>
  Claim C3. For every origin error code, \<open>infer_upstream_rst_stream_error_code\<close> returns
  REFUSED\_STREAM if and only if the code is REFUSED\_STREAM, and INTERNAL\_ERROR for every
  other code.
\<close>

theorem infer_upstream_rst_stream_error_code_spec:
  "(infer_upstream_rst_stream_error_code c = NGHTTP2_REFUSED_STREAM
      \<longleftrightarrow> c = NGHTTP2_REFUSED_STREAM)
   \<and> (c \<noteq> NGHTTP2_REFUSED_STREAM
      \<longrightarrow> infer_upstream_rst_stream_error_code c = NGHTTP2_INTERNAL_ERROR)"
  by (simp add: infer_upstream_rst_stream_error_code_def NGHTTP2_REFUSED_STREAM_def
      NGHTTP2_INTERNAL_ERROR_def)

theorem infer_upstream_rst_stream_error_code_spec_witness:
  "(infer_upstream_rst_stream_error_code 8 = NGHTTP2_REFUSED_STREAM
      \<longleftrightarrow> (8 :: nghttp2_error_code) = NGHTTP2_REFUSED_STREAM)
   \<and> (8 :: nghttp2_error_code) \<noteq> NGHTTP2_REFUSED_STREAM
   \<and> infer_upstream_rst_stream_error_code 8 = NGHTTP2_INTERNAL_ERROR"
  using infer_upstream_rst_stream_error_code_spec [of 8]
  by (simp add: NGHTTP2_REFUSED_STREAM_def NGHTTP2_INTERNAL_ERROR_def)

text \<open>
  Claim C7, as amended. The header callback checks the running raw-header size of the
  Stream before it appends: for a request HEADERS frame of a Stream in the table, it
  signals a temporal callback failure and leaves the session as it is when the size
  already exceeds MAX\_HEADERS\_SUM; otherwise it returns 0, ignoring a header that fails
  validation and appending a valid one, after which the size is the old size plus the
  lengths of name and value, hence at most MAX\_HEADERS\_SUM plus these lengths.
\<close>

theorem on_header_callback_limit:
  assumes "hd_type frame = NGHTTP2_HEADERS" and "headers_cat frame = NGHTTP2_HCAT_REQUEST"
    and "find_downstream s (hd_stream_id frame) = Some p" and "heap s p = Some ds"
  shows "(MAX_HEADERS_SUM x < request_headers_sum ds \<longrightarrow>
            on_header_callback x s frame name val
              = Inr (NGHTTP2_ERR_TEMPORAL_CALLBACK_FAILURE, s))
       \<and> (request_headers_sum ds \<le> MAX_HEADERS_SUM x \<and> \<not> check_nv x name val \<longrightarrow>
            on_header_callback x s frame name val = Inr (0, s))
       \<and> (request_headers_sum ds \<le> MAX_HEADERS_SUM x \<and> check_nv x name val \<longrightarrow>
            (\<exists>s' ds'. on_header_callback x s frame name val = Inr (0, s')
               \<and> heap s' p = Some ds'
               \<and> request_headers ds' = request_headers ds @ split_add_header x name val
               \<and> request_headers_sum ds' = request_headers_sum ds + length name + length val
               \<and> request_headers_sum ds' \<le> MAX_HEADERS_SUM x + length name + length val))"
  using assms
  by (simp add: on_header_callback_def split_add_request_header_def store_def)

theorem on_header_callback_limit_witness:
  "on_header_callback (sample_env\<lparr>MAX_HEADERS_SUM := 3\<rparr>)
       (sample_state ((sample_stream [])\<lparr>request_headers_sum := 4\<rparr>))
       (sample_frame NGHTTP2_HEADERS 0) ''a'' ''b''
     = Inr (NGHTTP2_ERR_TEMPORAL_CALLBACK_FAILURE,
            sample_state ((sample_stream [])\<lparr>request_headers_sum := 4\<rparr>))
   \<and> on_header_callback (sample_env\<lparr>check_nv := (\<lambda>name val. False)\<rparr>)
       (sample_state (sample_stream [])) (sample_frame NGHTTP2_HEADERS 0) ''a'' ''b''
     = Inr (0, sample_state (sample_stream []))
   \<and> (\<exists>s' ds'. on_header_callback sample_env (sample_state (sample_stream []))
          (sample_frame NGHTTP2_HEADERS 0) ''a'' ''b'' = Inr (0, s')
        \<and> heap s' 0 = Some ds' \<and> request_headers ds' = [(''a'', ''b'')]
        \<and> request_headers_sum ds' = 2)"
  using on_header_callback_limit [of "sample_frame NGHTTP2_HEADERS 0"
      "sample_state ((sample_stream [])\<lparr>request_headers_sum := 4\<rparr>)" 0
      "(sample_stream [])\<lparr>request_headers_sum := 4\<rparr>" "sample_env\<lparr>MAX_HEADERS_SUM := 3\<rparr>"
      "''a''" "''b''"]
    on_header_callback_limit [of "sample_frame NGHTTP2_HEADERS 0"
      "sample_state (sample_stream [])" 0 "sample_stream []"
      "sample_env\<lparr>check_nv := (\<lambda>name val. False)\<rparr>" "''a''" "''b''"]
    on_header_callback_limit [of "sample_frame NGHTTP2_HEADERS 0"
      "sample_state (sample_stream [])" 0 "sample_stream []" sample_env "''a''" "''b''"]
  by (auto simp add: sample_defs)

text \<open>
  The size does not stay below MAX\_HEADERS\_SUM: on a new Stream two headers of 40000
  bytes each are both appended, and the running size is 80000, above the limit of 65536
  of the sample environment.
\<close>

theorem request_headers_sum_bound_counterexample:
  "on_begin_headers_callback sample_env initial_state (sample_frame NGHTTP2_HEADERS 0)
     = (0, sample_state (sample_stream []))
   \<and> on_header_callback sample_env (sample_state (sample_stream []))
       (sample_frame NGHTTP2_HEADERS 0) ''a'' big_value
     = Inr (0, sample_state ((sample_stream [(''a'', big_value)])
                               \<lparr>request_headers_sum := 40000\<rparr>))
   \<and> on_header_callback sample_env
       (sample_state ((sample_stream [(''a'', big_value)])\<lparr>request_headers_sum := 40000\<rparr>))
       (sample_frame NGHTTP2_HEADERS 0) ''a'' big_value
     = Inr (0, sample_state ((sample_stream [(''a'', big_value), (''a'', big_value)])
                               \<lparr>request_headers_sum := 80000\<rparr>))
   \<and> \<not> (80000 \<le> MAX_HEADERS_SUM sample_env)"
  by (simp add: on_begin_headers_callback_def on_header_callback_def
      split_add_request_header_def store_def add_downstream_def sample_defs initial_state_def
      big_value_def Let_def)

text \<open>
  Claim C9. A start of the SETTINGS-ACK timer while a timer exists returns 0 and changes
  nothing; the first start arms a timer of 10 seconds (libevent not failing); so after
  any sequence of sent non-ACK SETTINGS frames the session holds the timer of the first
  one; and a received SETTINGS frame with the ACK flag stops and clears the timer.
\<close>

theorem settings_timer_idempotent:
  "(settings_timerev s \<noteq> None \<longrightarrow> start_settings_timer x s = (0, s))
   \<and> (settings_timerev s = None \<and> \<not> evtimer_new_fails x \<and> \<not> evtimer_add_fails x \<longrightarrow>
        start_settings_timer x s
          = (0, s\<lparr>settings_timerev := Some \<lparr>ev_timeout = Some (10, 0)\<rparr>\<rparr>))
   \<and> (settings_timerev s = None \<and> \<not> evtimer_new_fails x \<and> \<not> evtimer_add_fails x
        \<and> (\<forall>f \<in> set (frame # frames).
              hd_type f = NGHTTP2_SETTINGS \<and> hd_flags f AND NGHTTP2_FLAG_ACK = 0) \<longrightarrow>
        frames_sent x s (frame # frames)
          = (0, s\<lparr>settings_timerev := Some \<lparr>ev_timeout = Some (10, 0)\<rparr>\<rparr>))
   \<and> (hd_type frame = NGHTTP2_SETTINGS \<and> hd_flags frame AND NGHTTP2_FLAG_ACK \<noteq> 0 \<longrightarrow>
        (\<exists>s'. on_frame_recv_callback x s frame = Inr (0, s') \<and> settings_timerev s' = None
           \<and> s' = stop_settings_timer s))"
proof (intro conjI impI)
  show "start_settings_timer x s = (0, s)" if "settings_timerev s \<noteq> None"
    using that by (simp add: start_settings_timer_def)
next
  show "start_settings_timer x s = (0, s\<lparr>settings_timerev := Some \<lparr>ev_timeout = Some (10, 0)\<rparr>\<rparr>)"
    if "settings_timerev s = None \<and> \<not> evtimer_new_fails x \<and> \<not> evtimer_add_fails x"
    using that by (simp add: start_settings_timer_def)
next
  assume h: "settings_timerev s = None \<and> \<not> evtimer_new_fails x \<and> \<not> evtimer_add_fails x
        \<and> (\<forall>f \<in> set (frame # frames).
              hd_type f = NGHTTP2_SETTINGS \<and> hd_flags f AND NGHTTP2_FLAG_ACK = 0)"
  let ?s1 = "s\<lparr>settings_timerev := Some \<lparr>ev_timeout = Some (10, 0)\<rparr>\<rparr>"
  have first: "on_frame_send_callback x s frame = (0, ?s1)"
    using h by (simp add: on_frame_send_callback_def start_settings_timer_def)
  have rest: "frames_sent x ?s1 frames = (0, ?s1)"
    using h by (intro frames_sent_armed) simp_all
  show "frames_sent x s (frame # frames) = (0, ?s1)"
    by (simp add: first rest)
next
  assume h: "hd_type frame = NGHTTP2_SETTINGS \<and> hd_flags frame AND NGHTTP2_FLAG_ACK \<noteq> 0"
  then show "\<exists>s'. on_frame_recv_callback x s frame = Inr (0, s') \<and> settings_timerev s' = None
           \<and> s' = stop_settings_timer s"
    by (simp add: on_frame_recv_callback_def stop_settings_timer_def NGHTTP2_SETTINGS_def
        NGHTTP2_DATA_def NGHTTP2_HEADERS_def NGHTTP2_PRIORITY_def)
qed

theorem settings_timer_idempotent_witness:
  "start_settings_timer sample_env
       (initial_state\<lparr>settings_timerev := Some \<lparr>ev_timeout = Some (10, 0)\<rparr>\<rparr>)
     = (0, initial_state\<lparr>settings_timerev := Some \<lparr>ev_timeout = Some (10, 0)\<rparr>\<rparr>)
   \<and> start_settings_timer sample_env initial_state
     = (0, initial_state\<lparr>settings_timerev := Some \<lparr>ev_timeout = Some (10, 0)\<rparr>\<rparr>)
   \<and> frames_sent sample_env initial_state
        [sample_frame NGHTTP2_SETTINGS 0, sample_frame NGHTTP2_SETTINGS 0,
         sample_frame NGHTTP2_SETTINGS 0]
     = (0, initial_state\<lparr>settings_timerev := Some \<lparr>ev_timeout = Some (10, 0)\<rparr>\<rparr>)
   \<and> (\<exists>s'. on_frame_recv_callback sample_env
              (initial_state\<lparr>settings_timerev := Some \<lparr>ev_timeout = Some (10, 0)\<rparr>\<rparr>)
              (sample_frame NGHTTP2_SETTINGS 1) = Inr (0, s')
          \<and> settings_timerev s' = None)"
  using settings_timer_idempotent
      [of "initial_state\<lparr>settings_timerev := Some \<lparr>ev_timeout = Some (10, 0)\<rparr>\<rparr>"
          sample_env "sample_frame NGHTTP2_SETTINGS 1" "[]"]
    settings_timer_idempotent
      [of initial_state sample_env "sample_frame NGHTTP2_SETTINGS 0"
          "[sample_frame NGHTTP2_SETTINGS 0, sample_frame NGHTTP2_SETTINGS 0]"]
  by (simp add: sample_defs initial_state_def NGHTTP2_FLAG_ACK_def)

text \<open>
  Claim C4, as amended. With a response body buffer present, \<^verbatim>\<open>evbuffer_remove\<close> not
  failing and the codec reporting no fatal error, the data-source callback hands out the
  first \<open>len\<close> bytes of the buffer. When the read returns no byte and the response state
  is MSG\_COMPLETE, a stream that is not upgraded gets end-of-stream set, while for an
  upgraded stream end-of-stream is left as it was and RST\_STREAM is submitted with the
  code from \<open>infer_upstream_rst_stream_error_code\<close>; in every other case end-of-stream is
  left as it was and no RST\_STREAM is submitted. When the read returns no byte and
  end-of-stream is not set on return, the callback returns DEFERRED, provided the resume
  of the origin read, if attempted, does not fail.
\<close>

theorem downstream_data_read_callback_spec:
  assumes "heap s p = Some ds" and "response_body_buf ds = Some body"
    and "\<not> evbuffer_remove_fails x" and "NGHTTP2_ERR_FATAL \<le> submit_rst_stream_rv x"
  shows "\<exists>rv eof' s'.
           downstream_data_read_callback x s sid len eof p = Inr (rv, take len body, eof', s')
         \<and> map_option response_body_buf (heap s' p) = Some (Some (drop len body))
         \<and> eof' = (if min len (length body) = 0 \<and> response_state ds = MSG_COMPLETE
                        \<and> \<not> upgraded ds then 1 else eof)
         \<and> calls s' = calls s
             @ (if min len (length body) = 0 \<and> response_state ds = MSG_COMPLETE \<and> upgraded ds
                then [Submit_rst_stream (stream_id ds)
                        (infer_upstream_rst_stream_error_code
                           (response_rst_stream_error_code ds))]
                else [])
             @ (if eof' \<noteq> 1 \<and> outbuf_length s + length (drop len body) < OUTBUF_MAX_THRES
                then [Downstream_resume_read p] else [])
         \<and> (min len (length body) = 0 \<and> eof' \<noteq> 1
              \<and> (resume_read_rv x = 0
                  \<or> OUTBUF_MAX_THRES \<le> outbuf_length s + length (drop len body))
              \<longrightarrow> rv = NGHTTP2_ERR_DEFERRED)"
proof -
  let ?c = "min len (length body) = 0 \<and> response_state ds = MSG_COMPLETE"
  let ?r = "outbuf_length s + length (drop len body) < OUTBUF_MAX_THRES"
  consider (eos) "?c" "\<not> upgraded ds"
    | (rst) "?c" "upgraded ds" "eof \<noteq> 1 \<and> ?r"
    | (rst') "?c" "upgraded ds" "\<not> (eof \<noteq> 1 \<and> ?r)"
    | (more) "\<not> ?c" "eof \<noteq> 1 \<and> ?r"
    | (more') "\<not> ?c" "\<not> (eof \<noteq> 1 \<and> ?r)"
    by blast
  then show ?thesis
  proof cases
    case eos
    then show ?thesis
      using assms
      by (auto simp add: downstream_data_read_callback_def log_def store_def Let_def min_eq_0_iff)
  next
    case rst
    then show ?thesis
      using assms
      by (auto simp add: downstream_data_read_callback_def rst_stream_def log_def store_def Let_def
          min_eq_0_iff)
  next
    case rst'
    then show ?thesis
      using assms
      by (auto simp add: downstream_data_read_callback_def rst_stream_def log_def store_def Let_def
          min_eq_0_iff)
  next
    case more
    then show ?thesis
      using assms
      by (auto simp add: downstream_data_read_callback_def log_def store_def Let_def min_eq_0_iff)
  next
    case more'
    then show ?thesis
      using assms
      by (auto simp add: downstream_data_read_callback_def log_def store_def Let_def min_eq_0_iff)
  qed
qed

theorem downstream_data_read_callback_spec_witness:
  "(\<exists>rv s'. downstream_data_read_callback sample_env
        (sample_state ((sample_stream [])\<lparr>response_state := MSG_COMPLETE\<rparr>)) 1 10 0 0
        = Inr (rv, [], 1, s') \<and> calls s' = [])
   \<and> (\<exists>s'. downstream_data_read_callback sample_env
        (sample_state ((sample_stream [])\<lparr>response_state := MSG_COMPLETE, upgraded := True,
                                          response_rst_stream_error_code := 7\<rparr>)) 1 10 0 0
        = Inr (NGHTTP2_ERR_DEFERRED, [], 0, s')
        \<and> calls s' = [Submit_rst_stream 1 NGHTTP2_REFUSED_STREAM, Downstream_resume_read 0])
   \<and> (\<exists>s'. downstream_data_read_callback sample_env
        (sample_state (sample_stream [])) 1 10 0 0 = Inr (NGHTTP2_ERR_DEFERRED, [], 0, s'))"
  using downstream_data_read_callback_spec [of
      "sample_state ((sample_stream [])\<lparr>response_state := MSG_COMPLETE\<rparr>)" 0
      "(sample_stream [])\<lparr>response_state := MSG_COMPLETE\<rparr>" "[]" sample_env 1 10 0]
    downstream_data_read_callback_spec [of
      "sample_state ((sample_stream [])\<lparr>response_state := MSG_COMPLETE, upgraded := True,
                                        response_rst_stream_error_code := 7\<rparr>)" 0
      "(sample_stream [])\<lparr>response_state := MSG_COMPLETE, upgraded := True,
                          response_rst_stream_error_code := 7\<rparr>" "[]" sample_env 1 10 0]
    downstream_data_read_callback_spec [of
      "sample_state (sample_stream [])" 0 "sample_stream []" "[]" sample_env 1 10 0]
  by (auto simp add: sample_defs NGHTTP2_ERR_FATAL_def OUTBUF_MAX_THRES_def
      infer_upstream_rst_stream_error_code_def NGHTTP2_REFUSED_STREAM_def)

text \<open>
  End-of-stream is not set by the read that drains the buffer: with three bytes buffered,
  the response complete and the stream not upgraded, a read of up to ten bytes returns the
  three bytes, empties the buffer and leaves end-of-stream at 0. And with an empty buffer
  and the response not complete, the callback returns CALLBACK\_FAILURE, not DEFERRED, when
  the resume of the origin read fails.
\<close>

theorem downstream_data_read_callback_drain_counterexample:
  "downstream_data_read_callback sample_env
       (sample_state ((sample_stream [])\<lparr>response_state := MSG_COMPLETE,
                                         response_body_buf := Some ''abc''\<rparr>)) 1 10 0 0
     = Inr (3, ''abc'', 0,
            (sample_state ((sample_stream [])\<lparr>response_state := MSG_COMPLETE\<rparr>))
              \<lparr>calls := [Downstream_resume_read 0]\<rparr>)
   \<and> downstream_data_read_callback (sample_env\<lparr>resume_read_rv := - 1\<rparr>)
       (sample_state (sample_stream [])) 1 10 0 0
     = Inr (NGHTTP2_ERR_CALLBACK_FAILURE, [], 0,
            (sample_state (sample_stream []))\<lparr>calls := [Downstream_resume_read 0]\<rparr>)
   \<and> NGHTTP2_ERR_CALLBACK_FAILURE \<noteq> NGHTTP2_ERR_DEFERRED"
  by (simp add: downstream_data_read_callback_def sample_defs log_def store_def Let_def
      OUTBUF_MAX_THRES_def NGHTTP2_ERR_CALLBACK_FAILURE_def NGHTTP2_ERR_DEFERRED_def)

text \<open>
  Claim C8, as amended. When the client stream is already closed (request state
  STREAM\_CLOSED), the read callback removes and destroys the Stream and returns without
  running \<open>send\<close>. When the parser fails before the response headers are complete and the
  error reply fails, the client handler is deleted and the callback returns without
  running \<open>send\<close>. In every other case (the origin reported cancellation, the parser
  succeeded, the parser failed and the reset or the error reply was issued), the codec
  reporting no fatal error, the callback ends by running \<open>send\<close>, after the calls \<open>cs\<close> of
  its branch, and deletes the client handler afterwards exactly when \<open>send\<close> returns a
  non-zero value.
\<close>

theorem downstream_readcb_send:
  assumes "heap s p = Some ds" and "on_read x ds = (rv, ds1)"
  shows "(request_state ds = STREAM_CLOSED \<longrightarrow>
            (\<exists>s'. downstream_readcb x s dc p = Inr s'
               \<and> calls s' = calls s @ [Delete_Downstream p ds]
               \<and> heap s' p = None \<and> downstream_queue s' (stream_id ds) = None))
       \<and> (request_state ds \<noteq> STREAM_CLOSED \<and> response_state ds \<noteq> MSG_RESET \<and> rv \<noteq> 0
            \<and> response_state ds1 \<noteq> HEADER_COMPLETE \<and> response_state ds1 \<noteq> MSG_COMPLETE
            \<and> evbuffer_add_fails x \<longrightarrow>
            (\<exists>s'. downstream_readcb x s dc p = Inr s'
               \<and> calls s' = calls s @ [Downstream_on_read p, Delete_client_handler]))
       \<and> (request_state ds \<noteq> STREAM_CLOSED
            \<and> NGHTTP2_ERR_FATAL \<le> submit_rst_stream_rv x
            \<and> NGHTTP2_ERR_FATAL \<le> submit_response_rv x
            \<and> \<not> (response_state ds \<noteq> MSG_RESET \<and> rv \<noteq> 0
                  \<and> response_state ds1 \<noteq> HEADER_COMPLETE \<and> response_state ds1 \<noteq> MSG_COMPLETE
                  \<and> evbuffer_add_fails x) \<longrightarrow>
            (\<exists>t cs. downstream_readcb x s dc p
                       = Inr (if fst (send x t) \<noteq> 0
                              then log (snd (send x t)) Delete_client_handler
                              else snd (send x t))
               \<and> calls (snd (send x t)) = calls s @ cs @ [Http2Upstream_send]
               \<and> calls t = calls s @ cs
               \<and> outbuf_length t = outbuf_length s
               \<and> cs = (if response_state ds = MSG_RESET then
                          [Submit_rst_stream (stream_id ds)
                             (infer_upstream_rst_stream_error_code
                                (response_rst_stream_error_code ds)),
                           Delete_dconn dc]
                        else if rv = 0 then [Downstream_on_read p]
                        else if response_state ds1 = HEADER_COMPLETE then
                          [Downstream_on_read p,
                           Submit_rst_stream (stream_id ds1) NGHTTP2_INTERNAL_ERROR,
                           Delete_dconn dc]
                        else if response_state ds1 \<noteq> MSG_COMPLETE then
                          [Downstream_on_read p,
                           Submit_response (stream_id ds1)
                             [('':status'', utos x 502),
                              (''content-type'', ''text/html; charset=UTF-8''),
                              (''server'', server_name x),
                              (''content-length'', utos x (length (create_error_html x 502)))],
                           Delete_dconn dc]
                        else [Downstream_on_read p, Delete_dconn dc])))"
proof (intro conjI impI)
  assume "request_state ds = STREAM_CLOSED"
  then show "\<exists>s'. downstream_readcb x s dc p = Inr s'
               \<and> calls s' = calls s @ [Delete_Downstream p ds]
               \<and> heap s' p = None \<and> downstream_queue s' (stream_id ds) = None"
    using assms(1)
    by (simp add: downstream_readcb_def delete_downstream_def remove_downstream_def log_def)
next
  assume "request_state ds \<noteq> STREAM_CLOSED \<and> response_state ds \<noteq> MSG_RESET \<and> rv \<noteq> 0
            \<and> response_state ds1 \<noteq> HEADER_COMPLETE \<and> response_state ds1 \<noteq> MSG_COMPLETE
            \<and> evbuffer_add_fails x"
  then show "\<exists>s'. downstream_readcb x s dc p = Inr s'
               \<and> calls s' = calls s @ [Downstream_on_read p, Delete_client_handler]"
    using assms
    by (simp add: downstream_readcb_def error_reply_eq log_def store_def Let_def)
next
  assume h: "request_state ds \<noteq> STREAM_CLOSED
            \<and> NGHTTP2_ERR_FATAL \<le> submit_rst_stream_rv x
            \<and> NGHTTP2_ERR_FATAL \<le> submit_response_rv x
            \<and> \<not> (response_state ds \<noteq> MSG_RESET \<and> rv \<noteq> 0
                  \<and> response_state ds1 \<noteq> HEADER_COMPLETE \<and> response_state ds1 \<noteq> MSG_COMPLETE
                  \<and> evbuffer_add_fails x)"
  let ?cs = "if response_state ds = MSG_RESET then
                          [Submit_rst_stream (stream_id ds)
                             (infer_upstream_rst_stream_error_code
                                (response_rst_stream_error_code ds)),
                           Delete_dconn dc]
                        else if rv = 0 then [Downstream_on_read p]
                        else if response_state ds1 = HEADER_COMPLETE then
                          [Downstream_on_read p,
                           Submit_rst_stream (stream_id ds1) NGHTTP2_INTERNAL_ERROR,
                           Delete_dconn dc]
                        else if response_state ds1 \<noteq> MSG_COMPLETE then
                          [Downstream_on_read p,
                           Submit_response (stream_id ds1)
                             [('':status'', utos x 502),
                              (''content-type'', ''text/html; charset=UTF-8''),
                              (''server'', server_name x),
                              (''content-length'', utos x (length (create_error_html x 502)))],
                           Delete_dconn dc]
                        else [Downstream_on_read p, Delete_dconn dc]"
  have "\<exists>t. downstream_readcb x s dc p = send_or_delete_handler x t
          \<and> calls t = calls s @ ?cs \<and> outbuf_length t = outbuf_length s"
  proof (cases "response_state ds = MSG_RESET")
    case True
    then show ?thesis
      using assms h
      by (simp add: downstream_readcb_def rst_stream_def log_def store_def Let_def)
         (intro exI conjI, rule refl, simp, simp)
  next
    case False
    show ?thesis
    proof (cases "rv = 0")
      case True
      then show ?thesis
        using assms h False
        by (simp add: downstream_readcb_def log_def store_def Let_def)
           (intro exI conjI, rule refl, simp, simp)
    next
      case nz: False
      show ?thesis
      proof (cases "response_state ds1 = HEADER_COMPLETE")
        case True
        then show ?thesis
          using assms h False nz
          by (simp add: downstream_readcb_def rst_stream_def log_def store_def Let_def)
             (intro exI conjI, rule refl, simp, simp)
      next
        case nh: False
        show ?thesis
        proof (cases "response_state ds1 = MSG_COMPLETE")
          case True
          then show ?thesis
            using assms h False nz
            by (simp add: downstream_readcb_def log_def store_def Let_def)
               (intro exI conjI, rule refl, simp, simp)
        next
          case False
          then show ?thesis
            using assms h \<open>response_state ds \<noteq> MSG_RESET\<close> nz nh
            by (simp add: downstream_readcb_def error_reply_eq log_def store_def Let_def)
               (intro exI conjI, rule refl, simp, simp)
        qed
      qed
    qed
  qed
  then obtain t where t: "downstream_readcb x s dc p = send_or_delete_handler x t"
    "calls t = calls s @ ?cs" "outbuf_length t = outbuf_length s"
    by blast
  have sd: "send_or_delete_handler x t
              = Inr (if fst (send x t) \<noteq> 0 then log (snd (send x t)) Delete_client_handler
                     else snd (send x t))"
    by (simp add: send_or_delete_handler_def split: prod.splits)
  have sc: "calls (snd (send x t)) = calls s @ ?cs @ [Http2Upstream_send]"
    using send_calls [of x t] t(2) by simp
  show "\<exists>t cs. downstream_readcb x s dc p
                       = Inr (if fst (send x t) \<noteq> 0
                              then log (snd (send x t)) Delete_client_handler
                              else snd (send x t))
               \<and> calls (snd (send x t)) = calls s @ cs @ [Http2Upstream_send]
               \<and> calls t = calls s @ cs
               \<and> outbuf_length t = outbuf_length s
               \<and> cs = ?cs"
    using t sd sc by (intro exI [of _ t] exI [of _ ?cs]) simp
qed


theorem downstream_readcb_send_witness:
  "(\<exists>s'. downstream_readcb sample_env
        (sample_state ((sample_stream [])\<lparr>request_state := STREAM_CLOSED\<rparr>)) 7 0 = Inr s'
      \<and> calls s' = [Delete_Downstream 0 ((sample_stream [])\<lparr>request_state := STREAM_CLOSED\<rparr>)]
      \<and> heap s' 0 = None \<and> downstream_queue s' 1 = None)
   \<and> (\<exists>s'. downstream_readcb
        (sample_env\<lparr>on_read := (\<lambda>ds. (- 1, ds)), evbuffer_add_fails := True\<rparr>)
        (sample_state (sample_stream [])) 7 0 = Inr s'
      \<and> calls s' = [Downstream_on_read 0, Delete_client_handler])
   \<and> (\<exists>s'. downstream_readcb sample_env (sample_state (sample_stream [])) 7 0 = Inr s'
      \<and> calls s' = [Downstream_on_read 0, Http2Upstream_send])
   \<and> (\<exists>s'. downstream_readcb (sample_env\<lparr>want_read := 0\<rparr>)
        (sample_state (sample_stream [])) 7 0 = Inr s'
      \<and> calls s' = [Downstream_on_read 0, Http2Upstream_send, Delete_client_handler])"
  using downstream_readcb_send [of
      "sample_state ((sample_stream [])\<lparr>request_state := STREAM_CLOSED\<rparr>)" 0
      "(sample_stream [])\<lparr>request_state := STREAM_CLOSED\<rparr>" sample_env 0
      "(sample_stream [])\<lparr>request_state := STREAM_CLOSED\<rparr>" 7]
    downstream_readcb_send [of "sample_state (sample_stream [])" 0 "sample_stream []"
      "sample_env\<lparr>on_read := (\<lambda>ds. (- 1, ds)), evbuffer_add_fails := True\<rparr>" "- 1"
      "sample_stream []" 7]
    downstream_readcb_send [of "sample_state (sample_stream [])" 0 "sample_stream []"
      sample_env 0 "sample_stream []" 7]
    downstream_readcb_send [of "sample_state (sample_stream [])" 0 "sample_stream []"
      "sample_env\<lparr>want_read := 0\<rparr>" 0 "sample_stream []" 7]
  by (auto simp add: sample_defs NGHTTP2_ERR_FATAL_def send_def log_def)

text \<open>
  \<open>send\<close> is not run on a Stream in state STREAM\_CLOSED, nor when the parser fails and
  the error reply fails.
\<close>

theorem downstream_readcb_send_counterexample:
  "downstream_readcb sample_env
       (sample_state ((sample_stream [])\<lparr>request_state := STREAM_CLOSED\<rparr>)) 7 0
     = Inr (initial_state
              \<lparr>brk := 1,
               calls := [Delete_Downstream 0
                           ((sample_stream [])\<lparr>request_state := STREAM_CLOSED\<rparr>)]\<rparr>)
   \<and> downstream_readcb (sample_env\<lparr>on_read := (\<lambda>ds. (- 1, ds)), evbuffer_add_fails := True\<rparr>)
       (sample_state (sample_stream [])) 7 0
     = Inr ((sample_state (sample_stream []))
              \<lparr>calls := [Downstream_on_read 0, Delete_client_handler]\<rparr>)
   \<and> Http2Upstream_send
       \<notin> set [Delete_Downstream 0 ((sample_stream [])\<lparr>request_state := STREAM_CLOSED\<rparr>)]
   \<and> Http2Upstream_send \<notin> set [Downstream_on_read 0, Delete_client_handler]"
  by (simp add: downstream_readcb_def error_reply_def delete_downstream_def
      remove_downstream_def log_def store_def Let_def sample_defs initial_state_def)

end
